theory Spec2Isabelle
  imports Complex_Main "HOL-Library.AList"
begin

section \<open>JavaScript values\<close>

text \<open>
  The backend of the widget exchange is JavaScript. Request bodies and WebSocket
  messages are JSON values; a JavaScript number is an IEEE double, of which the code
  only uses truthiness and the comparison with zero, so a finite double is kept as the
  rational it denotes, next to the three non-finite values.
\<close>

datatype jsnum = Finite rat | PosInfinity | NegInfinity | NaN

datatype json =
    JUndefined
  | JNull
  | JBool bool
  | JNum jsnum
  | JStr string
  | JArr "json list"
  | JObj "(string \<times> json) list"

text \<open>\<open>!v\<close> is \<open>\<not> truthy v\<close>: undefined, null, false, 0, NaN and the empty
  string are falsy, everything else (arrays and objects too) is truthy.\<close>

fun truthy :: "json \<Rightarrow> bool" where
  "truthy JUndefined = False"
| "truthy JNull = False"
| "truthy (JBool b) = b"
| "truthy (JNum (Finite q)) = (q \<noteq> 0)"
| "truthy (JNum PosInfinity) = True"
| "truthy (JNum NegInfinity) = True"
| "truthy (JNum NaN) = False"
| "truthy (JStr s) = (s \<noteq> [])"
| "truthy (JArr xs) = True"
| "truthy (JObj kvs) = True"

text \<open>\<open>v.k\<close> for the property names the code reads (\<open>type\<close>, \<open>api_key\<close>,
  \<open>coin\<close>, \<open>amount\<close>, \<open>side\<close>, \<open>news_id\<close>): reading a property of null or
  undefined throws a TypeError (\<open>None\<close>); a primitive or an array has none of these
  properties; of a repeated key of an object \<open>JSON.parse\<close> keeps the last value.\<close>

fun get_prop :: "json \<Rightarrow> string \<Rightarrow> json option" where
  "get_prop JUndefined k = None"
| "get_prop JNull k = None"
| "get_prop (JObj kvs) k =
     Some (case map_of (rev kvs) k of None \<Rightarrow> JUndefined | Some v \<Rightarrow> v)"
| "get_prop v k = Some JUndefined"

text \<open>\<open>typeof v === 'number'\<close> and \<open>typeof v === 'object'\<close> (null and arrays are
  objects to \<open>typeof\<close>).\<close>

fun typeof_number :: "json \<Rightarrow> bool" where
  "typeof_number (JNum n) = True"
| "typeof_number v = False"

fun typeof_object :: "json \<Rightarrow> bool" where
  "typeof_object JNull = True"
| "typeof_object (JArr xs) = True"
| "typeof_object (JObj kvs) = True"
| "typeof_object v = False"

text \<open>\<open>n <= 0\<close> on doubles: every comparison with NaN is false.\<close>

fun num_le_zero :: "jsnum \<Rightarrow> bool" where
  "num_le_zero (Finite q) = (q \<le> 0)"
| "num_le_zero PosInfinity = False"
| "num_le_zero NegInfinity = True"
| "num_le_zero NaN = False"

fun json_le_zero :: "json \<Rightarrow> bool" where
  "json_le_zero (JNum n) = num_le_zero n"
| "json_le_zero v = False"

text \<open>\<open>a || b\<close>.\<close>

definition js_or :: "json \<Rightarrow> json \<Rightarrow> json" where
  "js_or a b = (if truthy a then a else b)"

text \<open>
  \<open>JSON.stringify(v)\<close>, kept as the value its text denotes, which is what the
  database and a verifier of a token read. A number that is not finite is written as
  null; in an array undefined is written as null; a property whose value is undefined
  is left out; an object has each of its properties once, a repeated name of the list
  standing for the property with the last of its values. The order in which an object's
  properties are written is the list's; no property below depends on it.
\<close>

definition own_properties :: "(string \<times> json) list \<Rightarrow> (string \<times> json) list" where
  "own_properties kvs =
     map (\<lambda>k. (k, case map_of (rev kvs) k of None \<Rightarrow> JUndefined | Some v \<Rightarrow> v))
       (rev (remdups (rev (map fst kvs))))"

fun in_array :: "json \<Rightarrow> json" where
  "in_array JUndefined = JNull"
| "in_array v = v"

fun JSON_stringify :: "json \<Rightarrow> json" where
  "JSON_stringify (JNum (Finite q)) = JNum (Finite q)"
| "JSON_stringify (JNum n) = JNull"
| "JSON_stringify (JArr xs) = JArr (map (\<lambda>x. in_array (JSON_stringify x)) xs)"
| "JSON_stringify (JObj kvs) =
     JObj (filter (\<lambda>p. snd p \<noteq> JUndefined)
            (own_properties (map (\<lambda>p. (fst p, JSON_stringify (snd p))) kvs)))"
| "JSON_stringify v = v"

section \<open>The PostgreSQL model (\<open>app/models/postgres/widget.js\<close>)\<close>

text \<open>
  A row of \<open>exchange_configurations\<close>, with the columns the token issuer and the
  gateway read. \<open>rate_limit_connections\<close> is a nullable INTEGER (\<open>None\<close> is NULL);
  a NULL \<open>allowed_origins\<close> behaves as the empty array in the one place that reads it.
\<close>

record exchange_config =
  exchange_id :: string
  api_key :: string
  secret_signing_key :: string
  allowed_origins :: "string list"
  rate_limit_connections :: "int option"
  is_active :: bool

text \<open>A row of \<open>widget_trades\<close>, the audit log. \<open>trade_id\<close> is the generated UUID.\<close>

record trade_row =
  t_trade_id :: nat
  t_exchange_id :: string
  t_exchange_user_id :: string
  t_trade_params :: json
  t_status :: string

text \<open>
  The database: the two tables, the source of fresh UUIDs (\<open>gen_random_uuid()\<close>,
  here a counter), and the outcomes of the next calls of \<open>postgres.pool.query\<close>:
  \<open>Some m\<close> is a query that rejects with an error of message \<open>m\<close> (the store is
  unreachable, a constraint is violated), \<open>None\<close> and the empty list are queries that
  run.
\<close>

record pg =
  exchange_configurations :: "exchange_config list"
  widget_trades :: "trade_row list"
  uuid_seq :: nat
  pg_faults :: "string option list"

datatype error_code = INVALID_EXCHANGE | INVALID_TRADE_PARAMS | PG_ERROR | TYPE_ERROR

datatype js_error = JsError (err_code: error_code) (err_message: string)

text \<open>One call of \<open>postgres.pool.query\<close>: it consumes the next outcome.\<close>

fun pool_query :: "pg \<Rightarrow> string option \<times> pg" where
  "pool_query db =
     (case pg_faults db of
        [] \<Rightarrow> (None, db)
      | f # fs \<Rightarrow> (f, db\<lparr>pg_faults := fs\<rparr>))"

text \<open>\<open>SELECT * FROM exchange_configurations WHERE exchange_id = $1 AND is_active = true\<close>;
  the result is \<open>rows[0]\<close>, undefined (\<open>None\<close>) when no row matches. The catch block logs
  and rethrows.\<close>

definition get_exchange_config :: "pg \<Rightarrow> string \<Rightarrow> (js_error + exchange_config option) \<times> pg" where
  "get_exchange_config db eid =
     (case pool_query db of
        (Some m, db') \<Rightarrow> (Inl (JsError PG_ERROR m), db')
      | (None, db') \<Rightarrow>
          (Inr (find (\<lambda>c. exchange_id c = eid \<and> is_active c) (exchange_configurations db')), db'))"

text \<open>\<open>INSERT INTO widget_trades (...) VALUES ($1, $2, $3, 'initiated') RETURNING trade_id\<close>:
  one query, no second attempt; the catch block logs and rethrows. The third parameter
  is the \<open>trade_params\<close> object, which the database client sends as
  \<open>JSON.stringify\<close> of it; the service reaches the insert with an object only.\<close>

definition create_trade_log :: "pg \<Rightarrow> string \<Rightarrow> string \<Rightarrow> json \<Rightarrow> (js_error + nat) \<times> pg" where
  "create_trade_log db eid uid tp =
     (case pool_query db of
        (Some m, db') \<Rightarrow> (Inl (JsError PG_ERROR m), db')
      | (None, db') \<Rightarrow>
          (Inr (uuid_seq db'),
           db'\<lparr>widget_trades := widget_trades db' @
                  [\<lparr>t_trade_id = uuid_seq db', t_exchange_id = eid, t_exchange_user_id = uid,
                    t_trade_params = JSON_stringify tp, t_status = ''initiated''\<rparr>],
               uuid_seq := Suc (uuid_seq db')\<rparr>))"

section \<open>The token service (\<open>app/routes/widget/widget.service.js\<close>)\<close>

definition TOKEN_EXPIRY_SECONDS :: nat where
  "TOKEN_EXPIRY_SECONDS = 30"

text \<open>The JWT payload, field by field as the object literal builds it.\<close>

record payload =
  p_trade_id :: nat
  p_exchange_id :: string
  p_user_id :: string
  p_coin :: json
  p_amount :: json
  p_side :: json
  p_news_id :: json
  p_iat :: nat
  p_exp :: nat

text \<open>A token of the jsonwebtoken library, symbolically: \<open>Jwt_sign p key\<close> is the
  token that verifies under \<open>key\<close> and decodes to the payload \<open>p\<close>.
  \<open>jwt.sign(payload, key)\<close> signs \<open>JSON.stringify\<close> of the payload, so the token
  carries the payload's values as that writes them. The library keeps an \<open>iat\<close> and an
  \<open>exp\<close> that the payload brings, and signing is taken to succeed.\<close>

datatype jwt = Jwt_sign payload string

definition jwt_sign :: "payload \<Rightarrow> string \<Rightarrow> jwt" where
  "jwt_sign p key =
     Jwt_sign (p\<lparr>p_coin := JSON_stringify (p_coin p), p_amount := JSON_stringify (p_amount p),
                 p_side := JSON_stringify (p_side p),
                 p_news_id := JSON_stringify (p_news_id p)\<rparr>) key"

record token_result =
  token :: jwt
  trade_id :: nat
  expires_in :: nat

text \<open>
  \<open>create_signed_token\<close>. \<open>t1\<close> and \<open>t2\<close> are what the two calls of \<open>Date.now()\<close> in
  the payload literal return (milliseconds), in the order of evaluation: the first
  gives \<open>iat\<close>, the second \<open>exp\<close>. \<open>Math.floor(t / 1000)\<close> is \<open>t div 1000\<close>.
\<close>

definition create_signed_token ::
  "pg \<Rightarrow> nat \<Rightarrow> nat \<Rightarrow> string \<Rightarrow> string \<Rightarrow> json \<Rightarrow> (js_error + token_result) \<times> pg" where
  "create_signed_token db t1 t2 eid uid tp =
     (case get_exchange_config db eid of
        (Inl e, db1) \<Rightarrow> (Inl e, db1)
      | (Inr None, db1) \<Rightarrow>
          (Inl (JsError INVALID_EXCHANGE ''invalid or inactive exchange id''), db1)
      | (Inr (Some cfg), db1) \<Rightarrow>
          (case (get_prop tp ''coin'', get_prop tp ''amount'', get_prop tp ''side'',
                 get_prop tp ''news_id'') of
             (Some coin, Some amount, Some side, Some news_id) \<Rightarrow>
               if \<not> truthy coin \<or> \<not> truthy amount \<or> \<not> truthy side then
                 (Inl (JsError INVALID_TRADE_PARAMS ''invalid trade parameters''), db1)
               else if side \<noteq> JStr ''long'' \<and> side \<noteq> JStr ''short'' then
                 (Inl (JsError INVALID_TRADE_PARAMS ''side must be long or short''), db1)
               else if \<not> typeof_number amount \<or> json_le_zero amount then
                 (Inl (JsError INVALID_TRADE_PARAMS ''amount must be a positive number''), db1)
               else
                 (case create_trade_log db1 eid uid tp of
                    (Inl e, db2) \<Rightarrow> (Inl e, db2)
                  | (Inr tid, db2) \<Rightarrow>
                      (Inr \<lparr>token =
                              jwt_sign
                                \<lparr>p_trade_id = tid, p_exchange_id = eid, p_user_id = uid,
                                 p_coin = coin, p_amount = amount, p_side = side,
                                 p_news_id = js_or news_id JNull,
                                 p_iat = t1 div 1000,
                                 p_exp = t2 div 1000 + TOKEN_EXPIRY_SECONDS\<rparr>
                                (secret_signing_key cfg),
                            trade_id = tid,
                            expires_in = TOKEN_EXPIRY_SECONDS\<rparr>, db2))
           | _ \<Rightarrow> (Inl (JsError TYPE_ERROR ''cannot read properties''), db1)))"

section \<open>The controller (\<open>app/routes/widget/widget.controller.js\<close>)\<close>

text \<open>
  The body of \<open>POST /widget/generate-trade-token\<close>. The interface types the two
  identifiers as strings; the empty string stands for an absent or empty one (both are
  falsy). \<open>trade_params\<close> is any JSON value.
\<close>

record token_request =
  req_exchange_id :: string
  req_exchange_user_id :: string
  req_trade_params :: json

text \<open>What the handler does with the response: \<open>error_response(res, message, status)\<close>,
  \<open>success_response(res, result, message)\<close>, or \<open>next(error)\<close>, which hands the error to
  the framework's error handler.\<close>

datatype http_outcome =
    Error_response string nat
  | Success_response token_result string
  | Next_error js_error

definition generate_trade_token :: "pg \<Rightarrow> nat \<Rightarrow> nat \<Rightarrow> token_request \<Rightarrow> http_outcome \<times> pg" where
  "generate_trade_token db t1 t2 body =
     (if req_exchange_id body = [] then (Error_response ''exchange_id is required'' 400, db)
      else if req_exchange_user_id body = [] then
        (Error_response ''exchange_user_id is required'' 400, db)
      else if \<not> truthy (req_trade_params body) \<or> \<not> typeof_object (req_trade_params body) then
        (Error_response ''trade_params object is required'' 400, db)
      else
        (case create_signed_token db t1 t2 (req_exchange_id body) (req_exchange_user_id body)
                (req_trade_params body) of
           (Inr result, db') \<Rightarrow> (Success_response result ''token generated successfully'', db')
         | (Inl e, db') \<Rightarrow>
             if err_code e = INVALID_EXCHANGE then (Error_response (err_message e) 400, db')
             else if err_code e = INVALID_TRADE_PARAMS then (Error_response (err_message e) 400, db')
             else (Next_error e, db')))"

section \<open>What the issuer's specification asks of trade parameters\<close>

text \<open>
  The specification's validity of trade parameters, in its own words: the asset symbol
  is a non-empty string, the side is long or short, the amount is a finite positive
  number within the configured bounds \<open>lo\<close> and \<open>hi\<close>.
\<close>

fun spec_valid_amount :: "rat \<Rightarrow> rat \<Rightarrow> json \<Rightarrow> bool" where
  "spec_valid_amount lo hi (JNum (Finite q)) = (0 < q \<and> lo \<le> q \<and> q \<le> hi)"
| "spec_valid_amount lo hi v = False"

fun spec_valid_symbol :: "json \<Rightarrow> bool" where
  "spec_valid_symbol (JStr s) = (s \<noteq> [])"
| "spec_valid_symbol v = False"

definition spec_valid_trade_params :: "rat \<Rightarrow> rat \<Rightarrow> json \<Rightarrow> bool" where
  "spec_valid_trade_params lo hi tp =
     (case (get_prop tp ''coin'', get_prop tp ''amount'', get_prop tp ''side'') of
        (Some coin, Some amount, Some side) \<Rightarrow>
          spec_valid_symbol coin \<and> (side = JStr ''long'' \<or> side = JStr ''short'') \<and>
          spec_valid_amount lo hi amount
      | _ \<Rightarrow> False)"

text \<open>
  The widget's own store (\<open>widget_store.ts\<close> of the frontend plan) validates an amount
  before it keeps it: \<open>amount >= MIN_AMOUNT && amount <= MAX_AMOUNT &&
  Number.isFinite(amount)\<close>, with the bounds of the configuration,
  \<open>min_trade_amount: 1\<close> and \<open>max_trade_amount: 100000\<close>.
\<close>

definition MIN_AMOUNT :: rat where
  "MIN_AMOUNT = 1"

definition MAX_AMOUNT :: rat where
  "MAX_AMOUNT = 100000"

fun num_ge :: "jsnum \<Rightarrow> rat \<Rightarrow> bool" where
  "num_ge (Finite q) r = (q \<ge> r)"
| "num_ge PosInfinity r = True"
| "num_ge NegInfinity r = False"
| "num_ge NaN r = False"

fun num_le :: "jsnum \<Rightarrow> rat \<Rightarrow> bool" where
  "num_le (Finite q) r = (q \<le> r)"
| "num_le PosInfinity r = False"
| "num_le NegInfinity r = True"
| "num_le NaN r = False"

fun Number_isFinite :: "jsnum \<Rightarrow> bool" where
  "Number_isFinite (Finite q) = True"
| "Number_isFinite n = False"

definition validate_amount :: "jsnum \<Rightarrow> bool" where
  "validate_amount amount =
     (num_ge amount MIN_AMOUNT \<and> num_le amount MAX_AMOUNT \<and> Number_isFinite amount)"

text \<open>The parameters the three checks of \<open>create_signed_token\<close> let through, said at
  once: a truthy coin, the side long or short, a number above zero.\<close>

fun positive_number :: "json \<Rightarrow> bool" where
  "positive_number (JNum (Finite q)) = (0 < q)"
| "positive_number (JNum PosInfinity) = True"
| "positive_number v = False"

definition accepted_trade_params :: "json \<Rightarrow> bool" where
  "accepted_trade_params tp =
     (case (get_prop tp ''coin'', get_prop tp ''amount'', get_prop tp ''side'') of
        (Some coin, Some amount, Some side) \<Rightarrow>
          truthy coin \<and> (side = JStr ''long'' \<or> side = JStr ''short'') \<and> positive_number amount
      | _ \<Rightarrow> False)"

fun failed_with :: "error_code \<Rightarrow> js_error + 'a \<Rightarrow> bool" where
  "failed_with c (Inl e) = (err_code e = c)"
| "failed_with c (Inr r) = False"

text \<open>The specification's persistence: a failed write is attempted once more.\<close>

definition spec_create_trade_log_retry_once ::
  "pg \<Rightarrow> string \<Rightarrow> string \<Rightarrow> json \<Rightarrow> (js_error + nat) \<times> pg" where
  "spec_create_trade_log_retry_once db eid uid tp =
     (case create_trade_log db eid uid tp of
        (Inl e, db') \<Rightarrow> create_trade_log db' eid uid tp
      | (Inr tid, db') \<Rightarrow> (Inr tid, db'))"

section \<open>Redis\<close>

text \<open>
  The keys the gateway uses: \<open>widget:connections:<exchange>\<close> (a set of socket ids),
  \<open>widget:connections:<exchange>:count\<close>, \<open>widget:connections:ip:<ip>\<close> and
  \<open>widget:rate:<socket>:<minute>\<close> (integers). A key holds an integer or a set, and
  may carry a time to live in seconds; the passing of time, and with it the expiry of
  a key, is outside this model.
\<close>

datatype redis_key =
    Connections string
  | Connections_count string
  | Connections_ip string
  | Rate string nat

record redis =
  r_ints :: "redis_key \<rightharpoonup> int"
  r_sets :: "redis_key \<Rightarrow> string set"
  r_ttl :: "redis_key \<rightharpoonup> nat"

definition redis_get :: "redis \<Rightarrow> redis_key \<Rightarrow> int option" where
  "redis_get r k = r_ints r k"

text \<open>INCR and DECR start a missing key at 0; INCR returns the new value.\<close>

definition redis_incr :: "redis \<Rightarrow> redis_key \<Rightarrow> int \<times> redis" where
  "redis_incr r k =
     (let v = (case r_ints r k of None \<Rightarrow> 0 | Some n \<Rightarrow> n) + 1
      in (v, r\<lparr>r_ints := (r_ints r)(k \<mapsto> v)\<rparr>))"

definition redis_decr :: "redis \<Rightarrow> redis_key \<Rightarrow> redis" where
  "redis_decr r k =
     r\<lparr>r_ints := (r_ints r)(k \<mapsto> (case r_ints r k of None \<Rightarrow> 0 | Some n \<Rightarrow> n) - 1)\<rparr>"

definition redis_sadd :: "redis \<Rightarrow> redis_key \<Rightarrow> string \<Rightarrow> redis" where
  "redis_sadd r k m = r\<lparr>r_sets := (r_sets r)(k := insert m (r_sets r k))\<rparr>"

definition redis_srem :: "redis \<Rightarrow> redis_key \<Rightarrow> string \<Rightarrow> redis" where
  "redis_srem r k m = r\<lparr>r_sets := (r_sets r)(k := r_sets r k - {m})\<rparr>"

text \<open>EXPIRE sets the time to live of a key that exists.\<close>

definition redis_expire :: "redis \<Rightarrow> redis_key \<Rightarrow> nat \<Rightarrow> redis" where
  "redis_expire r k s =
     (if r_ints r k \<noteq> None \<or> r_sets r k \<noteq> {} then r\<lparr>r_ttl := (r_ttl r)(k \<mapsto> s)\<rparr> else r)"

section \<open>The connection manager (\<open>widget.connection_manager.js\<close>)\<close>

definition CONNECTION_TTL :: nat where
  "CONNECTION_TTL = 86400"

text \<open>An entry of the \<open>connections\<close> Map. Its \<open>socket\<close> is a reference to the socket
  of the session with the entry's key, so the entry does not repeat it.\<close>

record connection =
  c_exchange_id :: string
  c_ip :: string
  connected_at :: nat

text \<open>The state the sessions share: the Map (in insertion order), Redis and the
  database.\<close>

record server =
  connections :: "(string \<times> connection) list"
  redis :: redis
  pg :: pg

definition add_connection :: "server \<Rightarrow> string \<Rightarrow> string \<Rightarrow> string \<Rightarrow> nat \<Rightarrow> server" where
  "add_connection srv sid eid ip now =
     (let r1 = redis_sadd (redis srv) (Connections eid) sid;
          r2 = redis_expire r1 (Connections eid) CONNECTION_TTL;
          r3 = snd (redis_incr r2 (Connections_count eid));
          r4 = redis_expire r3 (Connections_count eid) CONNECTION_TTL;
          r5 = snd (redis_incr r4 (Connections_ip ip));
          r6 = redis_expire r5 (Connections_ip ip) CONNECTION_TTL
      in srv\<lparr>connections :=
               AList.update sid \<lparr>c_exchange_id = eid, c_ip = ip, connected_at = now\<rparr>
                 (connections srv),
             redis := r6\<rparr>)"

definition remove_connection :: "server \<Rightarrow> string \<Rightarrow> server" where
  "remove_connection srv sid =
     (case map_of (connections srv) sid of
        None \<Rightarrow> srv
      | Some conn \<Rightarrow>
          (let r1 = redis_srem (redis srv) (Connections (c_exchange_id conn)) sid;
               r2 = redis_decr r1 (Connections_count (c_exchange_id conn));
               r3 = redis_decr r2 (Connections_ip (c_ip conn))
           in srv\<lparr>connections := AList.delete sid (connections srv), redis := r3\<rparr>))"

text \<open>\<open>parseInt(count || '0', 10)\<close>.\<close>

definition get_exchange_connection_count :: "server \<Rightarrow> string \<Rightarrow> int" where
  "get_exchange_connection_count srv eid =
     (case redis_get (redis srv) (Connections_count eid) of None \<Rightarrow> 0 | Some n \<Rightarrow> n)"

definition get_ip_connection_count :: "server \<Rightarrow> string \<Rightarrow> int" where
  "get_ip_connection_count srv ip =
     (case redis_get (redis srv) (Connections_ip ip) of None \<Rightarrow> 0 | Some n \<Rightarrow> n)"

section \<open>The rate limiter (\<open>widget.rate_limiter.js\<close>)\<close>

definition DEFAULT_max_connections_per_ip :: int where
  "DEFAULT_max_connections_per_ip = 10"

definition DEFAULT_messages_per_minute :: int where
  "DEFAULT_messages_per_minute = 60"

datatype rate_check = Allowed | Denied nat string

text \<open>
  \<open>check_connection_limits\<close>. The handler always passes
  \<open>max_connections_per_exchange: exchange_config.rate_limit_connections\<close>, which
  overrides the default of the spread; a NULL column is null, and \<open>n >= null\<close>
  compares with 0.
\<close>

definition check_connection_limits :: "server \<Rightarrow> string \<Rightarrow> string \<Rightarrow> int option \<Rightarrow> rate_check" where
  "check_connection_limits srv eid ip exchange_limit =
     (if get_exchange_connection_count srv eid \<ge> (case exchange_limit of None \<Rightarrow> 0 | Some n \<Rightarrow> n)
      then Denied 4004 ''exchange connection limit reached''
      else if get_ip_connection_count srv ip \<ge> DEFAULT_max_connections_per_ip
      then Denied 4005 ''ip connection limit reached''
      else Allowed)"

text \<open>\<open>check_message_rate\<close>: \<open>now\<close> is \<open>Date.now()\<close>; the counter is the one of this
  socket and this minute.\<close>

definition check_message_rate :: "redis \<Rightarrow> string \<Rightarrow> nat \<Rightarrow> int \<Rightarrow> rate_check \<times> redis" where
  "check_message_rate r sid now limit =
     (let minute_key = Rate sid (now div 60000);
          (count, r1) = redis_incr r minute_key;
          r2 = (if count = 1 then redis_expire r1 minute_key 60 else r1)
      in if count > limit then (Denied 4006 ''message rate limit exceeded'', r2)
         else (Allowed, r2))"

section \<open>The WebSocket handler (\<open>widget.websocket.js\<close>)\<close>

text \<open>
  What the server puts on the wire of one socket, in order: a text frame holding
  \<open>JSON.stringify\<close> of a value, a close frame with its code and reason, a protocol
  ping.
\<close>

datatype wire = Sent json | Close_frame nat string | Ping_frame

datatype ready_state = OPEN | CLOSING | CLOSED

text \<open>
  One session: the variables of the \<open>connection\<close> callback's closure and the state of
  its socket. \<open>s_origin\<close> is \<open>req.headers.origin\<close> (\<open>None\<close> when the header is
  absent); \<open>auth_timeout\<close> and \<open>heartbeat_interval\<close> say whether the timer is
  pending.
\<close>

record session =
  s_socket_id :: string
  s_ip :: string
  s_origin :: "string option"
  s_exchange_id :: "string option"
  is_authenticated :: bool
  auth_timeout :: bool
  heartbeat_interval :: bool
  socket_state :: ready_state
  outbox :: "wire list"

text \<open>
  A JSON text starts, after any spaces, tabs, line feeds and carriage returns, with the
  first character of a value: a brace, a bracket, a double quote, a minus sign, a digit,
  or the \<open>t\<close>, \<open>f\<close> or \<open>n\<close> of true, false and null. On a text that does not,
  and on the empty text, \<open>JSON.parse\<close> throws a SyntaxError.
\<close>

fun may_start_json :: "string \<Rightarrow> bool" where
  "may_start_json [] = False"
| "may_start_json (c # cs) =
     (if c \<in> {CHR 0x20, CHR 0x09, CHR 0x0A, CHR 0x0D} then may_start_json cs
      else c \<in> {CHR ''{'', CHR ''['', CHR 0x22, CHR ''-'', CHR ''t'', CHR ''f'', CHR ''n''}
           \<or> c \<in> set ''0123456789'')"

typedef non_json = "{s. \<not> may_start_json s}"
  morphisms text_of Non_json
  by (rule exI [of _ "[]"]) simp

text \<open>A text frame from the client: one whose text \<open>JSON.parse\<close> reads as the given
  value, or one whose text cannot start a JSON value, on which \<open>JSON.parse\<close> throws.
  The bare keepalive \<open>ping\<close> of the widget's client is of the second kind. Texts that
  start like JSON and are not JSON are not among the frames of this model.\<close>

datatype frame = Json_text json | Other_text non_json

fun JSON_parse :: "frame \<Rightarrow> json option" where
  "JSON_parse (Json_text v) = Some v"
| "JSON_parse (Other_text t) = None"

text \<open>\<open>socket.send\<close> and \<open>socket.close\<close> of the ws library do nothing on a socket that
  is no longer open; \<open>close\<close> sends the close frame and leaves the socket closing
  until its \<open>close\<close> event.\<close>

definition socket_send :: "session \<Rightarrow> json \<Rightarrow> session" where
  "socket_send s v = (if socket_state s = OPEN then s\<lparr>outbox := outbox s @ [Sent v]\<rparr> else s)"

definition socket_close :: "session \<Rightarrow> nat \<Rightarrow> string \<Rightarrow> session" where
  "socket_close s code reason =
     (if socket_state s = OPEN
      then s\<lparr>socket_state := CLOSING, outbox := outbox s @ [Close_frame code reason]\<rparr>
      else s)"

definition error_message :: "string \<Rightarrow> nat \<Rightarrow> json" where
  "error_message e code =
     JObj [(''type'', JStr ''error''), (''error'', JStr e),
           (''code'', JNum (Finite (of_nat code)))]"

definition send_error :: "session \<Rightarrow> string \<Rightarrow> nat \<Rightarrow> session" where
  "send_error s e code = socket_send s (error_message e code)"

text \<open>The start of the \<open>connection\<close> callback: the closure's variables, the
  authentication timer set.\<close>

definition on_connection :: "string \<Rightarrow> string \<Rightarrow> string option \<Rightarrow> session" where
  "on_connection sid ip origin =
     \<lparr>s_socket_id = sid, s_ip = ip, s_origin = origin, s_exchange_id = None,
      is_authenticated = False, auth_timeout = True, heartbeat_interval = False,
      socket_state = OPEN, outbox = []\<rparr>"

text \<open>The callback of the authentication timer, when it is still pending.\<close>

definition on_auth_timeout :: "session \<Rightarrow> session" where
  "on_auth_timeout s =
     (if auth_timeout s then
        (let s1 = s\<lparr>auth_timeout := False\<rparr>
         in if \<not> is_authenticated s1
            then socket_close (send_error s1 ''authentication timeout'' 4001) 4001 ''Auth timeout''
            else s1)
      else s)"

text \<open>One tick of the heartbeat interval.\<close>

definition on_heartbeat :: "session \<Rightarrow> session" where
  "on_heartbeat s =
     (if heartbeat_interval s \<and> socket_state s = OPEN
      then s\<lparr>outbox := outbox s @ [Ping_frame]\<rparr> else s)"

text \<open>\<open>SELECT * FROM exchange_configurations WHERE api_key = $1\<close>, with the key of the
  message as parameter: a row matches a key that is the string it stores. The protocol
  types \<open>api_key\<close> as a string; a truthy key of another type would reach the database
  in the text form node-postgres gives it, and is taken here to match no row. The
  properties below that depend on the lookup are stated for string keys.\<close>

definition get_exchange_by_api_key :: "pg \<Rightarrow> json \<Rightarrow> (js_error + exchange_config option) \<times> pg" where
  "get_exchange_by_api_key db key =
     (case pool_query db of
        (Some m, db') \<Rightarrow> (Inl (JsError PG_ERROR m), db')
      | (None, db') \<Rightarrow>
          (Inr (find (\<lambda>c. JStr (api_key c) = key) (exchange_configurations db')), db'))"

text \<open>A handler returns, or throws into the \<open>catch\<close> of the message callback.\<close>

datatype completion = Returned | Threw

text \<open>The origin check: \<open>allowed_origins?.length > 0 && origin\<close>, and then
  \<open>!allowed_origins.includes(origin)\<close>.\<close>

definition origin_refused :: "string list \<Rightarrow> string option \<Rightarrow> bool" where
  "origin_refused allowed origin =
     (case origin of
        None \<Rightarrow> False
      | Some orig \<Rightarrow> allowed \<noteq> [] \<and> orig \<noteq> [] \<and> orig \<notin> set allowed)"

definition reject :: "session \<Rightarrow> string \<Rightarrow> nat \<Rightarrow> string \<Rightarrow> session" where
  "reject s e code reason = socket_close (send_error s e code) code reason"

definition handle_auth :: "server \<Rightarrow> session \<Rightarrow> nat \<Rightarrow> json \<Rightarrow> completion \<times> server \<times> session" where
  "handle_auth srv s now message =
     (case (get_prop message ''type'', get_prop message ''api_key'') of
        (Some ty, Some key) \<Rightarrow>
          if ty \<noteq> JStr ''auth'' \<or> \<not> truthy key then
            (Returned, srv, reject s ''invalid auth message'' 4002 ''Invalid auth'')
          else
            (case get_exchange_by_api_key (pg srv) key of
               (Inl e, db') \<Rightarrow> (Threw, srv\<lparr>pg := db'\<rparr>, s)
             | (Inr None, db') \<Rightarrow>
                 (Returned, srv\<lparr>pg := db'\<rparr>, reject s ''invalid api key'' 4002 ''Invalid API key'')
             | (Inr (Some cfg), db') \<Rightarrow>
                 if \<not> is_active cfg then
                   (Returned, srv\<lparr>pg := db'\<rparr>,
                    reject s ''exchange inactive'' 4003 ''Exchange inactive'')
                 else if origin_refused (allowed_origins cfg) (s_origin s) then
                   (Returned, srv\<lparr>pg := db'\<rparr>,
                    reject s ''origin not allowed'' 4008 ''Origin not allowed'')
                 else
                   (case check_connection_limits (srv\<lparr>pg := db'\<rparr>) (exchange_id cfg) (s_ip s)
                           (rate_limit_connections cfg) of
                      Denied code reason \<Rightarrow>
                        (Returned, srv\<lparr>pg := db'\<rparr>, reject s reason code reason)
                    | Allowed \<Rightarrow>
                        (let s1 = s\<lparr>auth_timeout := False, is_authenticated := True,
                                    s_exchange_id := Some (exchange_id cfg)\<rparr>;
                             srv1 = add_connection (srv\<lparr>pg := db'\<rparr>) (s_socket_id s1)
                                      (exchange_id cfg) (s_ip s1) now;
                             s2 = s1\<lparr>heartbeat_interval := True\<rparr>
                         in (Returned, srv1,
                             socket_send s2
                               (JObj [(''type'', JStr ''auth_success''),
                                      (''exchange_id'', JStr (exchange_id cfg))])))))
      | _ \<Rightarrow> (Threw, srv, s))"

text \<open>\<open>handle_message\<close>: the rate check is called without a limit, so with the
  default of 60 messages a minute.\<close>

definition handle_message :: "server \<Rightarrow> session \<Rightarrow> nat \<Rightarrow> json \<Rightarrow> completion \<times> server \<times> session" where
  "handle_message srv s now message =
     (case check_message_rate (redis srv) (s_socket_id s) now DEFAULT_messages_per_minute of
        (Denied code reason, r') \<Rightarrow> (Returned, srv\<lparr>redis := r'\<rparr>, send_error s reason code)
      | (Allowed, r') \<Rightarrow>
          (case get_prop message ''type'' of
             None \<Rightarrow> (Threw, srv\<lparr>redis := r'\<rparr>, s)
           | Some ty \<Rightarrow>
               if ty = JStr ''ping''
               then (Returned, srv\<lparr>redis := r'\<rparr>, socket_send s (JObj [(''type'', JStr ''pong'')]))
               else (Returned, srv\<lparr>redis := r'\<rparr>, s)))"

text \<open>The \<open>message\<close> callback: every frame goes through \<open>JSON.parse\<close>; whatever is
  thrown is answered with an error message, and the socket is left as it is.\<close>

definition on_message :: "server \<Rightarrow> session \<Rightarrow> nat \<Rightarrow> frame \<Rightarrow> server \<times> session" where
  "on_message srv s now data =
     (case JSON_parse data of
        None \<Rightarrow> (srv, send_error s ''invalid message format'' 4007)
      | Some message \<Rightarrow>
          (case (if \<not> is_authenticated s then handle_auth srv s now message
                 else handle_message srv s now message) of
             (Threw, srv', s') \<Rightarrow> (srv', send_error s' ''invalid message format'' 4007)
           | (Returned, srv', s') \<Rightarrow> (srv', s')))"

definition cleanup :: "session \<Rightarrow> session" where
  "cleanup s = s\<lparr>auth_timeout := False, heartbeat_interval := False\<rparr>"

text \<open>The \<open>close\<close> callback; the socket is closed when it runs.\<close>

definition on_close :: "server \<Rightarrow> session \<Rightarrow> server \<times> session" where
  "on_close srv s =
     (let s1 = cleanup (s\<lparr>socket_state := CLOSED\<rparr>)
      in if is_authenticated s1 then (remove_connection srv (s_socket_id s1), s1)
         else (srv, s1))"

text \<open>
  \<open>graceful_shutdown\<close>: the sockets of the sessions are the objects the entries of the
  Map refer to, held here by socket id. Each gets the shutdown message and the close
  frame; then the Map is cleared.
\<close>

definition shutdown_message :: json where
  "shutdown_message =
     JObj [(''type'', JStr ''error''), (''error'', JStr ''server shutting down''),
           (''code'', JNum (Finite 4009))]"

fun close_all :: "(string \<times> connection) list \<Rightarrow> (string \<rightharpoonup> session) \<Rightarrow> (string \<rightharpoonup> session)" where
  "close_all [] ss = ss"
| "close_all ((sid, conn) # cs) ss =
     close_all cs
       (case ss sid of
          None \<Rightarrow> ss
        | Some s \<Rightarrow> ss(sid \<mapsto> socket_close (socket_send s shutdown_message) 4009 ''Server shutdown''))"

definition graceful_shutdown ::
  "server \<Rightarrow> (string \<rightharpoonup> session) \<Rightarrow> server \<times> (string \<rightharpoonup> session)" where
  "graceful_shutdown srv ss = (srv\<lparr>connections := []\<rparr>, close_all (connections srv) ss)"

text \<open>The close code the server sent on a socket, if it sent one.\<close>

fun close_code :: "wire list \<Rightarrow> nat option" where
  "close_code [] = None"
| "close_code (Close_frame code reason # ws) = Some code"
| "close_code (w # ws) = close_code ws"

section \<open>Concrete tenants, requests and sessions\<close>

definition acme :: exchange_config where
  "acme = \<lparr>exchange_id = ''acme'', api_key = ''wk_1'', secret_signing_key = ''sk_1'',
           allowed_origins = [], rate_limit_connections = Some 2, is_active = True\<rparr>"

definition acme_inactive :: exchange_config where
  "acme_inactive = acme\<lparr>is_active := False\<rparr>"

definition db_of :: "exchange_config list \<Rightarrow> string option list \<Rightarrow> pg" where
  "db_of cfgs faults =
     \<lparr>exchange_configurations = cfgs, widget_trades = [], uuid_seq = 0, pg_faults = faults\<rparr>"

definition btc_long :: "jsnum \<Rightarrow> json" where
  "btc_long amount =
     JObj [(''coin'', JStr ''BTC''), (''amount'', JNum amount), (''side'', JStr ''long'')]"

definition acme_request :: "jsnum \<Rightarrow> token_request" where
  "acme_request amount =
     \<lparr>req_exchange_id = ''acme'', req_exchange_user_id = ''u1'',
      req_trade_params = btc_long amount\<rparr>"

definition redis_empty :: redis where
  "redis_empty = \<lparr>r_ints = Map.empty, r_sets = (\<lambda>k. {}), r_ttl = Map.empty\<rparr>"

definition server_of :: "exchange_config list \<Rightarrow> server" where
  "server_of cfgs = \<lparr>connections = [], redis = redis_empty, pg = db_of cfgs []\<rparr>"

definition visitor :: session where
  "visitor = on_connection ''ws_1'' ''10.0.0.1'' None"

definition auth_frame :: "string \<Rightarrow> frame" where
  "auth_frame key = Json_text (JObj [(''type'', JStr ''auth''), (''api_key'', JStr key)])"

definition ping_frame :: frame where
  "ping_frame = Json_text (JObj [(''type'', JStr ''ping'')])"

text \<open>Two requests of acme that differ from a valid one in the amount only: 100001,
  just above the configured maximum, and positive infinity, which is what the JSON
  number \<open>1e999\<close> of a request body is read as.\<close>

definition over_bounds_issue :: "(js_error + token_result) \<times> pg" where
  "over_bounds_issue =
     create_signed_token (db_of [acme] []) 0 0 ''acme'' ''u1'' (btc_long (Finite 100001))"

definition infinite_amount_issue :: "(js_error + token_result) \<times> pg" where
  "infinite_amount_issue =
     create_signed_token (db_of [acme] []) 0 0 ''acme'' ''u1'' (btc_long PosInfinity)"

text \<open>A valid request of acme, handled while the clock passes from one second to the
  next: the first reading is 1700000000999 ms, the second 1700000001000 ms.\<close>

definition boundary_issue :: "(js_error + token_result) \<times> pg" where
  "boundary_issue =
     create_signed_token (db_of [acme] []) 1700000000999 1700000001000 ''acme'' ''u1''
       (btc_long (Finite 100))"

section \<open>Notions for stating the gateway's properties\<close>

text \<open>What the counter of a socket's current minute holds (0 when the key is missing),
  and the state after one message has been counted: the counter is one higher, and a
  counter that has just been created expires after 60 seconds.\<close>

definition minute_count :: "server \<Rightarrow> string \<Rightarrow> nat \<Rightarrow> int" where
  "minute_count srv sid now =
     (case r_ints (redis srv) (Rate sid (now div 60000)) of None \<Rightarrow> 0 | Some n \<Rightarrow> n)"

definition count_message :: "server \<Rightarrow> string \<Rightarrow> nat \<Rightarrow> server" where
  "count_message srv sid now =
     srv\<lparr>redis := (redis srv)
       \<lparr>r_ints := (r_ints (redis srv))(Rate sid (now div 60000) \<mapsto> minute_count srv sid now + 1),
        r_ttl := (if minute_count srv sid now = 0
                  then (r_ttl (redis srv))(Rate sid (now div 60000) \<mapsto> 60)
                  else r_ttl (redis srv))\<rparr>\<rparr>"

text \<open>The frames of one socket, handled one after the other at time \<open>now\<close>, each to
  its end before the next. The message callback is asynchronous: a frame that arrives
  while the handler of the one before awaits the database or Redis is handled in
  between, and that interleaving is outside this model.\<close>

fun feed :: "server \<times> session \<Rightarrow> nat \<Rightarrow> frame list \<Rightarrow> server \<times> session" where
  "feed st now [] = st"
| "feed st now (f # fs) = feed (on_message (fst st) (snd st) now f) now fs"

text \<open>The visitor after authenticating with acme's key; then sixty pings and one more
  within the same minute; and, instead, a graceful shutdown followed by the \<open>close\<close>
  event of the visitor's socket.\<close>

definition after_auth :: "server \<times> session" where
  "after_auth = on_message (server_of [acme]) visitor 5 (auth_frame ''wk_1'')"

definition sixty_one_pings :: "server \<times> session" where
  "sixty_one_pings = feed after_auth 6 (replicate 60 ping_frame @ [ping_frame])"

definition shutdown_then_close :: "(server \<times> session) option" where
  "shutdown_then_close =
     (case graceful_shutdown (fst after_auth) [''ws_1'' \<mapsto> snd after_auth] of
        (srv, ss) \<Rightarrow> map_option (on_close srv) (ss ''ws_1''))"

section \<open>Token issuance: unknown and inactive exchanges\<close>

lemma pool_query_tables:
  "exchange_configurations (snd (pool_query db)) = exchange_configurations db"
  "widget_trades (snd (pool_query db)) = widget_trades db"
  "uuid_seq (snd (pool_query db)) = uuid_seq db"
  by (simp_all split: list.splits)

lemma get_exchange_config_runs:
  assumes "fst (pool_query db) = None"
  shows "get_exchange_config db eid =
           (Inr (find (\<lambda>c. exchange_id c = eid \<and> is_active c) (exchange_configurations db)),
            snd (pool_query db))"
  using assms by (simp add: get_exchange_config_def split: list.splits prod.splits option.splits)

lemma get_exchange_config_snd: "snd (get_exchange_config db eid) = snd (pool_query db)"
  by (simp add: get_exchange_config_def split: list.splits prod.splits option.splits)

lemma create_signed_token_no_exchange:
  assumes "get_exchange_config db eid = (Inr None, db1)"
  shows "create_signed_token db t1 t2 eid uid tp =
           (Inl (JsError INVALID_EXCHANGE ''invalid or inactive exchange id''), db1)"
  using assms by (simp add: create_signed_token_def)

text \<open>
  Claim C1. When the lookup query runs and no row of \<open>exchange_configurations\<close> has the
  request's exchange id and is active (the tenant is unknown or disabled),
  \<open>create_signed_token\<close> throws the error of code \<open>INVALID_EXCHANGE\<close> and message
  \<open>invalid or inactive exchange id\<close>, whatever the user id and the trade parameters
  are; the controller reports it with \<open>error_response\<close> and status 400 for every body
  that reaches the service (both identifiers present, \<open>trade_params\<close> an object); and
  the table \<open>widget_trades\<close> is as before, after the service and after the controller,
  for every body. The only change of the database state is that the lookup query has
  been made.
\<close>

theorem issue_unknown_exchange_rejected:
  assumes "fst (pool_query db) = None"
    and "\<not> (\<exists>c \<in> set (exchange_configurations db). exchange_id c = eid \<and> is_active c)"
  shows "create_signed_token db t1 t2 eid uid tp =
           (Inl (JsError INVALID_EXCHANGE ''invalid or inactive exchange id''), snd (pool_query db))
       \<and> widget_trades (snd (create_signed_token db t1 t2 eid uid tp)) = widget_trades db
       \<and> (eid \<noteq> [] \<and> uid \<noteq> [] \<and> truthy tp \<and> typeof_object tp \<longrightarrow>
            generate_trade_token db t1 t2
              \<lparr>req_exchange_id = eid, req_exchange_user_id = uid, req_trade_params = tp\<rparr>
            = (Error_response ''invalid or inactive exchange id'' 400, snd (pool_query db)))
       \<and> widget_trades (snd (generate_trade_token db t1 t2
              \<lparr>req_exchange_id = eid, req_exchange_user_id = uid, req_trade_params = tp\<rparr>))
           = widget_trades db"
proof -
  have none: "find (\<lambda>c. exchange_id c = eid \<and> is_active c) (exchange_configurations db) = None"
    using assms(2) by (auto simp: find_None_iff)
  have lookup: "get_exchange_config db eid = (Inr None, snd (pool_query db))"
    using get_exchange_config_runs [OF assms(1)] none by simp
  have svc: "create_signed_token db t1 t2 eid uid tp =
           (Inl (JsError INVALID_EXCHANGE ''invalid or inactive exchange id''), snd (pool_query db))"
    by (rule create_signed_token_no_exchange [OF lookup])
  show ?thesis
    by (simp add: svc generate_trade_token_def pool_query_tables del: pool_query.simps)
qed

text \<open>The scenario of the specification: the request for BTC, 100, long of user \<open>u1\<close>
  against the inactive tenant \<open>acme\<close>.\<close>

theorem issue_unknown_exchange_rejected_witness:
  "fst (pool_query (db_of [acme_inactive] [])) = None
   \<and> \<not> (\<exists>c \<in> set (exchange_configurations (db_of [acme_inactive] [])).
            exchange_id c = ''acme'' \<and> is_active c)
   \<and> generate_trade_token (db_of [acme_inactive] []) 0 0 (acme_request (Finite 100))
       = (Error_response ''invalid or inactive exchange id'' 400, db_of [acme_inactive] [])
   \<and> widget_trades (snd (generate_trade_token (db_of [acme_inactive] []) 0 0
         (acme_request (Finite 100)))) = []"
proof -
  have h1: "fst (pool_query (db_of [acme_inactive] [])) = None"
    by (simp add: db_of_def)
  have h2: "\<not> (\<exists>c \<in> set (exchange_configurations (db_of [acme_inactive] [])).
            exchange_id c = ''acme'' \<and> is_active c)"
    by (simp add: db_of_def acme_inactive_def acme_def)
  have h3: "truthy (btc_long (Finite 100)) \<and> typeof_object (btc_long (Finite 100))"
    by (simp add: btc_long_def)
  from issue_unknown_exchange_rejected [OF h1 h2, of 0 0 "''u1''" "btc_long (Finite 100)"] h1 h2 h3
  show ?thesis
    by (simp add: acme_request_def db_of_def)
qed

section \<open>Token issuance: the checks on the trade parameters\<close>

lemma positive_number_iff:
  "positive_number a \<longleftrightarrow> truthy a \<and> typeof_number a \<and> \<not> json_le_zero a"
proof (cases a)
  case (JNum n)
  then show ?thesis by (cases n) auto
qed simp_all

lemma side_truthy: "side = JStr ''long'' \<or> side = JStr ''short'' \<Longrightarrow> truthy side"
  by auto

text \<open>The three checks in one: with an active exchange and trade parameters whose
  properties can be read, the service goes on to the insert exactly for the accepted
  parameters, and otherwise throws \<open>INVALID_TRADE_PARAMS\<close> with the message of the first
  check that fails.\<close>

lemma create_signed_token_checks:
  assumes "get_exchange_config db eid = (Inr (Some cfg), db1)"
    and "get_prop tp ''coin'' = Some coin" "get_prop tp ''amount'' = Some amount"
    and "get_prop tp ''side'' = Some side" "get_prop tp ''news_id'' = Some news_id"
  shows "create_signed_token db t1 t2 eid uid tp =
     (if truthy coin \<and> (side = JStr ''long'' \<or> side = JStr ''short'') \<and> positive_number amount
      then (case create_trade_log db1 eid uid tp of
              (Inl e, db2) \<Rightarrow> (Inl e, db2)
            | (Inr tid, db2) \<Rightarrow>
                (Inr \<lparr>token =
                        jwt_sign
                          \<lparr>p_trade_id = tid, p_exchange_id = eid, p_user_id = uid,
                           p_coin = coin, p_amount = amount, p_side = side,
                           p_news_id = js_or news_id JNull,
                           p_iat = t1 div 1000,
                           p_exp = t2 div 1000 + TOKEN_EXPIRY_SECONDS\<rparr>
                          (secret_signing_key cfg),
                      trade_id = tid,
                      expires_in = TOKEN_EXPIRY_SECONDS\<rparr>, db2))
      else (Inl (JsError INVALID_TRADE_PARAMS
                  (if \<not> truthy coin \<or> \<not> truthy amount \<or> \<not> truthy side
                   then ''invalid trade parameters''
                   else if side \<noteq> JStr ''long'' \<and> side \<noteq> JStr ''short''
                   then ''side must be long or short''
                   else ''amount must be a positive number'')), db1))"
  using assms side_truthy [of side]
  by (auto simp add: create_signed_token_def positive_number_iff simp del: truthy.simps)

lemma get_prop_all_or_none:
  "get_prop tp k \<noteq> None \<Longrightarrow> \<exists>v. get_prop tp k' = Some v"
  by (cases tp) auto

lemma create_trade_log_pg_error:
  "fst (create_trade_log db eid uid tp) = Inl e \<Longrightarrow> err_code e = PG_ERROR"
  by (auto simp: create_trade_log_def split: list.splits option.splits prod.splits)

text \<open>
  What the service's checks amount to. For a request against an active exchange whose
  \<open>trade_params\<close> is not null or undefined, \<open>create_signed_token\<close> throws
  \<open>INVALID_TRADE_PARAMS\<close> exactly when the parameters are not accepted: \<open>coin\<close> is
  truthy, \<open>side\<close> is the string long or short, and \<open>amount\<close> is a JavaScript number
  greater than zero. When the parameters are refused nothing is written: the state is
  the one the lookup left, and \<open>widget_trades\<close> is as before.
\<close>

lemma trade_params_rejected_iff:
  assumes "get_exchange_config db eid = (Inr (Some cfg), db1)"
    and "get_prop tp ''coin'' \<noteq> None"
  shows "(failed_with INVALID_TRADE_PARAMS (fst (create_signed_token db t1 t2 eid uid tp))
            \<longleftrightarrow> \<not> accepted_trade_params tp)
       \<and> (\<not> accepted_trade_params tp \<longrightarrow>
            snd (create_signed_token db t1 t2 eid uid tp) = db1
            \<and> widget_trades (snd (create_signed_token db t1 t2 eid uid tp)) = widget_trades db)"
proof -
  obtain coin amount side news_id where props:
    "get_prop tp ''coin'' = Some coin" "get_prop tp ''amount'' = Some amount"
    "get_prop tp ''side'' = Some side" "get_prop tp ''news_id'' = Some news_id"
    using get_prop_all_or_none [OF assms(2)] by metis
  note eq = create_signed_token_checks [OF assms(1) props, of t1 t2 uid]
  have acc: "accepted_trade_params tp \<longleftrightarrow>
      truthy coin \<and> (side = JStr ''long'' \<or> side = JStr ''short'') \<and> positive_number amount"
    by (simp add: accepted_trade_params_def props)
  have db1: "db1 = snd (pool_query db)"
    using assms(1) get_exchange_config_snd [of db eid] by simp
  show ?thesis
  proof (cases "accepted_trade_params tp")
    case True
    then have "\<not> failed_with INVALID_TRADE_PARAMS (fst (create_signed_token db t1 t2 eid uid tp))"
      using eq acc create_trade_log_pg_error [of db1 eid uid tp]
      by (cases "create_trade_log db1 eid uid tp") (auto split: sum.splits)
    with True show ?thesis by simp
  next
    case False
    then have rej: "create_signed_token db t1 t2 eid uid tp =
       (Inl (JsError INVALID_TRADE_PARAMS
                  (if \<not> truthy coin \<or> \<not> truthy amount \<or> \<not> truthy side
                   then ''invalid trade parameters''
                   else if side \<noteq> JStr ''long'' \<and> side \<noteq> JStr ''short''
                   then ''side must be long or short''
                   else ''amount must be a positive number'')), db1)"
      using eq acc by (simp only: if_False)
    show ?thesis
      unfolding rej using False db1 by (simp add: pool_query_tables del: pool_query.simps)
  qed
qed

text \<open>
  Claim C4. The service checks that the amount is a number above zero and nothing more:
  it has neither the bounds nor the finiteness test of the widget's \<open>validate_amount\<close>.
  The request with amount 100001, which \<open>validate_amount\<close> refuses and which is not
  valid in the specification's sense under the configured bounds, does not fail with
  \<open>INVALID_TRADE_PARAMS\<close>: its row is written and its token is signed. So is the
  request with an amount of positive infinity, whose row and token carry the amount
  null.
\<close>

theorem amount_outside_bounds_issued:
  "\<not> validate_amount (Finite 100001)
   \<and> \<not> spec_valid_trade_params MIN_AMOUNT MAX_AMOUNT (btc_long (Finite 100001))
   \<and> (case fst over_bounds_issue of
         Inl e \<Rightarrow> False
       | Inr r \<Rightarrow> (case token r of Jwt_sign p key \<Rightarrow> p_amount p = JNum (Finite 100001)))
   \<and> map t_trade_params (widget_trades (snd over_bounds_issue)) = [btc_long (Finite 100001)]
   \<and> \<not> validate_amount PosInfinity
   \<and> \<not> spec_valid_trade_params MIN_AMOUNT MAX_AMOUNT (btc_long PosInfinity)
   \<and> (case fst infinite_amount_issue of
         Inl e \<Rightarrow> False
       | Inr r \<Rightarrow> (case token r of Jwt_sign p key \<Rightarrow> p_amount p = JNull))
   \<and> map t_trade_params (widget_trades (snd infinite_amount_issue)) =
         [JObj [(''coin'', JStr ''BTC''), (''amount'', JNull), (''side'', JStr ''long'')]]"
  by (simp add: validate_amount_def MIN_AMOUNT_def MAX_AMOUNT_def spec_valid_trade_params_def
      over_bounds_issue_def infinite_amount_issue_def create_signed_token_def
      get_exchange_config_def create_trade_log_def db_of_def acme_def btc_long_def
      jwt_sign_def js_or_def own_properties_def)

section \<open>Token issuance: a write that fails\<close>

lemma accepted_is_object:
  assumes "accepted_trade_params tp"
  shows "truthy tp \<and> typeof_object tp"
proof (cases tp)
  case (JObj kvs)
  then show ?thesis by simp
qed (use assms in \<open>simp_all add: accepted_trade_params_def\<close>)

lemma accepted_passes_checks:
  assumes "accepted_trade_params tp"
  obtains coin amount side news_id where
    "get_prop tp ''coin'' = Some coin" "get_prop tp ''amount'' = Some amount"
    "get_prop tp ''side'' = Some side" "get_prop tp ''news_id'' = Some news_id"
    "truthy coin" "truthy amount" "truthy side"
    "side = JStr ''long'' \<or> side = JStr ''short''"
    "typeof_number amount" "\<not> json_le_zero amount"
proof -
  obtain kvs where tp: "tp = JObj kvs"
    using assms by (cases tp) (simp_all add: accepted_trade_params_def)
  let ?g = "\<lambda>k. case map_of (rev kvs) k of None \<Rightarrow> JUndefined | Some v \<Rightarrow> v"
  have a: "truthy (?g ''coin'')" "?g ''side'' = JStr ''long'' \<or> ?g ''side'' = JStr ''short''"
    "positive_number (?g ''amount'')"
    using assms by (simp_all add: accepted_trade_params_def tp)
  have n: "truthy (?g ''amount'') \<and> typeof_number (?g ''amount'') \<and> \<not> json_le_zero (?g ''amount'')"
  proof (cases "?g ''amount''")
    case (JNum x)
    with a(3) show ?thesis by (cases x) auto
  qed (use a(3) in simp_all)
  have s: "truthy (?g ''side'')" using a(2) by auto
  show thesis
    by (rule that [of "?g ''coin''" "?g ''amount''" "?g ''side''" "?g ''news_id''"])
       (use a n s in \<open>simp_all add: tp\<close>)
qed

text \<open>
  Claim C5, as the code has it. When the lookup finds the active exchange, the trade
  parameters are accepted and the INSERT into \<open>widget_trades\<close> fails with message \<open>m\<close>,
  the write is not attempted again: \<open>create_signed_token\<close> throws that error, and the
  controller, for which the error is neither \<open>INVALID_EXCHANGE\<close> nor
  \<open>INVALID_TRADE_PARAMS\<close>, hands it to \<open>next\<close>, the framework's handler of server
  errors. No token is returned, no row is written, and of the outcomes of the queries to
  come exactly two have been used: the lookup's and the one failed insert's.
\<close>

theorem persistence_failure_not_retried:
  assumes "pg_faults db = None # Some m # rest"
    and "find (\<lambda>c. exchange_id c = eid \<and> is_active c) (exchange_configurations db) = Some cfg"
    and "accepted_trade_params tp"
    and "eid \<noteq> []" and "uid \<noteq> []"
  shows "create_signed_token db t1 t2 eid uid tp =
           (Inl (JsError PG_ERROR m), db\<lparr>pg_faults := rest\<rparr>)
       \<and> generate_trade_token db t1 t2
           \<lparr>req_exchange_id = eid, req_exchange_user_id = uid, req_trade_params = tp\<rparr>
         = (Next_error (JsError PG_ERROR m), db\<lparr>pg_faults := rest\<rparr>)"
proof -
  have lookup: "get_exchange_config db eid = (Inr (Some cfg), db\<lparr>pg_faults := Some m # rest\<rparr>)"
    using assms(1,2) by (simp add: get_exchange_config_def)
  have ins: "create_trade_log (db\<lparr>pg_faults := Some m # rest\<rparr>) eid uid tp =
               (Inl (JsError PG_ERROR m), db\<lparr>pg_faults := rest\<rparr>)"
    by (simp add: create_trade_log_def)
  have svc: "create_signed_token db t1 t2 eid uid tp =
           (Inl (JsError PG_ERROR m), db\<lparr>pg_faults := rest\<rparr>)"
  proof -
    from assms(3) obtain coin amount side news_id where p:
      "get_prop tp ''coin'' = Some coin" "get_prop tp ''amount'' = Some amount"
      "get_prop tp ''side'' = Some side" "get_prop tp ''news_id'' = Some news_id"
      "truthy coin" "truthy amount" "truthy side"
      "side = JStr ''long'' \<or> side = JStr ''short''"
      "typeof_number amount" "\<not> json_le_zero amount"
      by (rule accepted_passes_checks)
    show ?thesis
      unfolding create_signed_token_def lookup
      using p(5-10) by (auto simp add: p(1-4) ins simp del: truthy.simps)
  qed
  have obj: "truthy tp \<and> typeof_object tp"
    by (rule accepted_is_object [OF assms(3)])
  show ?thesis
    using assms(4,5) obj by (simp add: svc generate_trade_token_def)
qed

theorem persistence_failure_not_retried_witness:
  "pg_faults (db_of [acme] [None, Some ''down'', None]) = None # Some ''down'' # [None]
   \<and> find (\<lambda>c. exchange_id c = ''acme'' \<and> is_active c)
        (exchange_configurations (db_of [acme] [None, Some ''down'', None])) = Some acme
   \<and> accepted_trade_params (btc_long (Finite 100))
   \<and> generate_trade_token (db_of [acme] [None, Some ''down'', None]) 0 0 (acme_request (Finite 100))
       = (Next_error (JsError PG_ERROR ''down''), db_of [acme] [None])"
proof -
  have h1: "pg_faults (db_of [acme] [None, Some ''down'', None]) = None # Some ''down'' # [None]"
    by (simp add: db_of_def)
  have h2: "find (\<lambda>c. exchange_id c = ''acme'' \<and> is_active c)
        (exchange_configurations (db_of [acme] [None, Some ''down'', None])) = Some acme"
    by (simp add: db_of_def acme_def)
  have h3: "accepted_trade_params (btc_long (Finite 100))"
    by (simp add: accepted_trade_params_def btc_long_def)
  have h4: "''acme'' \<noteq> []" and h5: "''u1'' \<noteq> []" by simp_all
  from persistence_failure_not_retried [OF h1 h2 h3 h4 h5, of 0 0] h1 h2 h3
  show ?thesis by (simp add: acme_request_def db_of_def)
qed

text \<open>Against the claim as the specification states it: the insert fails once and
  would run the second time. A write retried once returns the trade id; the code's
  \<open>create_trade_log\<close> throws, the request ends in \<open>next(error)\<close>, and the outcome of the
  second attempt is still unused.\<close>

theorem failed_write_is_not_retried:
  "fst (create_trade_log (db_of [acme] [Some ''down'', None]) ''acme'' ''u1'' (btc_long (Finite 100)))
     = Inl (JsError PG_ERROR ''down'')
   \<and> fst (spec_create_trade_log_retry_once (db_of [acme] [Some ''down'', None]) ''acme'' ''u1''
            (btc_long (Finite 100))) = Inr 0
   \<and> fst (generate_trade_token (db_of [acme] [None, Some ''down'', None]) 0 0
            (acme_request (Finite 100))) = Next_error (JsError PG_ERROR ''down'')
   \<and> pg_faults (snd (generate_trade_token (db_of [acme] [None, Some ''down'', None]) 0 0
            (acme_request (Finite 100)))) = [None]"
  by (simp add: generate_trade_token_def create_signed_token_def get_exchange_config_def
      create_trade_log_def spec_create_trade_log_retry_once_def db_of_def acme_def btc_long_def
      acme_request_def)

section \<open>Token issuance: the signed payload and its validity window\<close>

text \<open>Every token the service returns is the payload of the request's fields (as
  \<open>JSON.stringify\<close> writes them), the new trade id and the two timestamps, signed with
  the \<open>secret_signing_key\<close> of the active exchange of the request; \<open>expires_in\<close> is
  30.\<close>

lemma issued_token_payload:
  assumes "create_signed_token db t1 t2 eid uid tp = (Inr r, db')"
  shows "\<exists>cfg coin amount side news_id.
           find (\<lambda>c. exchange_id c = eid \<and> is_active c) (exchange_configurations db) = Some cfg
         \<and> get_prop tp ''coin'' = Some coin \<and> get_prop tp ''amount'' = Some amount
         \<and> get_prop tp ''side'' = Some side \<and> get_prop tp ''news_id'' = Some news_id
         \<and> token r =
             Jwt_sign \<lparr>p_trade_id = trade_id r, p_exchange_id = eid, p_user_id = uid,
                       p_coin = JSON_stringify coin, p_amount = JSON_stringify amount,
                       p_side = side,
                       p_news_id = JSON_stringify (js_or news_id JNull),
                       p_iat = t1 div 1000, p_exp = t2 div 1000 + 30\<rparr>
               (secret_signing_key cfg)
         \<and> expires_in r = 30"
  using assms
  by (auto simp add: create_signed_token_def get_exchange_config_def TOKEN_EXPIRY_SECONDS_def
      jwt_sign_def split: prod.splits sum.splits option.splits if_splits list.splits)

text \<open>When both readings of the clock fall into the same second, the window is the 30
  seconds.\<close>

lemma token_window_same_second:
  assumes "create_signed_token db t1 t2 eid uid tp = (Inr r, db')"
    and "token r = Jwt_sign p key" and "t1 div 1000 = t2 div 1000"
  shows "p_exp p = p_iat p + 30"
  using issued_token_payload [OF assms(1)] assms(2,3) by auto

text \<open>
  Claim C3. The payload literal reads the clock twice, once for \<open>iat\<close> and once for
  \<open>exp\<close>. A request handled while the clock passes from 1700000000999 ms to
  1700000001000 ms gets \<open>iat = 1700000000\<close> and \<open>exp = 1700000031\<close>: the signed
  window is 31 seconds, while the response says \<open>expires_in = 30\<close>.
\<close>

theorem token_window_across_second_boundary:
  "(case fst boundary_issue of
      Inl e \<Rightarrow> False
    | Inr r \<Rightarrow>
        (case token r of
           Jwt_sign p key \<Rightarrow>
             p_iat p = 1700000000 \<and> p_exp p = 1700000031 \<and> p_exp p - p_iat p = 31
             \<and> expires_in r = 30))"
  by (simp add: boundary_issue_def create_signed_token_def get_exchange_config_def
      TOKEN_EXPIRY_SECONDS_def create_trade_log_def db_of_def acme_def btc_long_def js_or_def
      jwt_sign_def)

section \<open>The gateway: messages of an authenticated session\<close>

lemma check_message_rate_eq:
  "check_message_rate (redis srv) sid now limit =
     (if minute_count srv sid now + 1 > limit then Denied 4006 ''message rate limit exceeded''
      else Allowed, redis (count_message srv sid now))"
  by (simp add: check_message_rate_def redis_incr_def redis_expire_def minute_count_def
      count_message_def Let_def)

lemma count_message_redis:
  "srv\<lparr>redis := redis (count_message srv sid now)\<rparr> = count_message srv sid now"
  by (simp add: count_message_def)

text \<open>\<open>handle_message\<close>, with the rate check spelt out: every message is counted; at
  60 counted messages or more the answer is the error 4006 and a return.\<close>

lemma handle_message_eq:
  "handle_message srv s now message =
     (if minute_count srv (s_socket_id s) now \<ge> DEFAULT_messages_per_minute then
        (Returned, count_message srv (s_socket_id s) now,
         send_error s ''message rate limit exceeded'' 4006)
      else case get_prop message ''type'' of
             None \<Rightarrow> (Threw, count_message srv (s_socket_id s) now, s)
           | Some ty \<Rightarrow>
               (Returned, count_message srv (s_socket_id s) now,
                if ty = JStr ''ping'' then socket_send s (JObj [(''type'', JStr ''pong'')]) else s))"
  by (simp add: handle_message_def check_message_rate_eq count_message_redis split: option.splits)

text \<open>
  Claim C10, as the code has it. An authenticated session receives a JSON message other than null (so that its \<open>type\<close> can be read) whose
  \<open>type\<close> is not the string \<open>ping\<close>, with fewer than 60 messages counted in the
  current minute. The handler returns the session exactly as it was (still
  authenticated, the socket in the same state, nothing added to what was sent: no
  reply, no error, no close frame), and the shared state differs only in that the
  message has been counted: the counter of this socket and minute is one higher (with
  its expiry of 60 seconds set when the counter is new); the Map of connections, the
  database, the sets and every other key of Redis are as before.
\<close>

theorem unknown_type_ignored:
  assumes "is_authenticated s"
    and "get_prop message ''type'' = Some ty" and "ty \<noteq> JStr ''ping''"
    and "minute_count srv (s_socket_id s) now < DEFAULT_messages_per_minute"
  shows "on_message srv s now (Json_text message) = (count_message srv (s_socket_id s) now, s)"
  using assms by (simp add: on_message_def handle_message_eq)

lemma after_auth_eq:
  "after_auth =
     (\<lparr>connections = [(''ws_1'', \<lparr>c_exchange_id = ''acme'', c_ip = ''10.0.0.1'', connected_at = 5\<rparr>)],
       redis = \<lparr>r_ints = [Connections_count ''acme'' \<mapsto> 1, Connections_ip ''10.0.0.1'' \<mapsto> 1],
                r_sets = (\<lambda>k. {})(Connections ''acme'' := {''ws_1''}),
                r_ttl = [Connections ''acme'' \<mapsto> 86400, Connections_count ''acme'' \<mapsto> 86400,
                         Connections_ip ''10.0.0.1'' \<mapsto> 86400]\<rparr>,
       pg = db_of [acme] []\<rparr>,
      \<lparr>s_socket_id = ''ws_1'', s_ip = ''10.0.0.1'', s_origin = None,
       s_exchange_id = Some ''acme'', is_authenticated = True,
       auth_timeout = False, heartbeat_interval = True, socket_state = OPEN,
       outbox = [Sent (JObj [(''type'', JStr ''auth_success''), (''exchange_id'', JStr ''acme'')])]\<rparr>)"
  by (simp add: after_auth_def on_message_def handle_auth_def get_exchange_by_api_key_def
      server_of_def db_of_def acme_def visitor_def on_connection_def auth_frame_def
      check_connection_limits_def get_exchange_connection_count_def get_ip_connection_count_def
      redis_get_def redis_empty_def DEFAULT_max_connections_per_ip_def origin_refused_def
      add_connection_def redis_sadd_def redis_expire_def redis_incr_def CONNECTION_TTL_def
      socket_send_def Let_def)

text \<open>The authenticated visitor sends \<open>{"type": "subscribe"}\<close> as its first message of
  the minute.\<close>

theorem unknown_type_ignored_witness:
  "is_authenticated (snd after_auth)
   \<and> get_prop (JObj [(''type'', JStr ''subscribe'')]) ''type'' = Some (JStr ''subscribe'')
   \<and> JStr ''subscribe'' \<noteq> JStr ''ping''
   \<and> minute_count (fst after_auth) (s_socket_id (snd after_auth)) 6 < DEFAULT_messages_per_minute
   \<and> snd (on_message (fst after_auth) (snd after_auth) 6
            (Json_text (JObj [(''type'', JStr ''subscribe'')]))) = snd after_auth
   \<and> minute_count (fst (on_message (fst after_auth) (snd after_auth) 6
            (Json_text (JObj [(''type'', JStr ''subscribe'')])))) ''ws_1'' 6 = 1"
proof -
  have h1: "is_authenticated (snd after_auth)"
    by (simp add: after_auth_eq)
  have h2: "get_prop (JObj [(''type'', JStr ''subscribe'')]) ''type'' = Some (JStr ''subscribe'')"
    by simp
  have h3: "JStr ''subscribe'' \<noteq> JStr ''ping''"
    by simp
  have h4: "minute_count (fst after_auth) (s_socket_id (snd after_auth)) 6
              < DEFAULT_messages_per_minute"
    by (simp add: after_auth_eq minute_count_def DEFAULT_messages_per_minute_def)
  have sid: "s_socket_id (snd after_auth) = ''ws_1''"
    by (simp add: after_auth_eq)
  have c: "minute_count (count_message (fst after_auth) ''ws_1'' 6) ''ws_1'' 6 = 1"
    by (simp add: after_auth_eq minute_count_def count_message_def)
  from unknown_type_ignored [OF h1 h2 h3 h4] h1 h2 h3 h4 c
  show ?thesis by (simp add: sid)
qed

text \<open>A message that is the JSON value null has no \<open>type\<close> to read: it is counted, and
  the TypeError is answered with the error 4007.\<close>

lemma null_message_when_authenticated:
  assumes "is_authenticated s"
    and "minute_count srv (s_socket_id s) now < DEFAULT_messages_per_minute"
  shows "on_message srv s now (Json_text JNull) =
           (count_message srv (s_socket_id s) now, send_error s ''invalid message format'' 4007)"
  using assms by (simp add: on_message_def handle_message_eq)

text \<open>Against the claim as the specification states it: the authenticated visitor sends
  the JSON value null as its first message of the minute. It is well-formed JSON, its
  type is not \<open>ping\<close>, and it passes the rate check; yet an error message is sent.\<close>

theorem null_message_answered_with_error:
  "is_authenticated (snd after_auth)
   \<and> minute_count (fst after_auth) (s_socket_id (snd after_auth)) 6 < DEFAULT_messages_per_minute
   \<and> get_prop JNull ''type'' \<noteq> Some (JStr ''ping'')
   \<and> outbox (snd (on_message (fst after_auth) (snd after_auth) 6 (Json_text JNull))) =
         outbox (snd after_auth) @ [Sent (error_message ''invalid message format'' 4007)]
   \<and> outbox (snd (on_message (fst after_auth) (snd after_auth) 6 (Json_text JNull))) \<noteq>
         outbox (snd after_auth)"
  by (simp add: after_auth_eq on_message_def send_error_def socket_send_def handle_message_eq
      minute_count_def DEFAULT_messages_per_minute_def)

section \<open>The gateway: the message rate limit\<close>

lemma handle_message_over_limit:
  assumes "is_authenticated s" and "socket_state s = OPEN"
    and "minute_count srv (s_socket_id s) now \<ge> DEFAULT_messages_per_minute"
  shows "on_message srv s now (Json_text message) =
           (count_message srv (s_socket_id s) now,
            s\<lparr>outbox := outbox s @ [Sent (error_message ''message rate limit exceeded'' 4006)]\<rparr>)"
  using assms by (simp add: on_message_def handle_message_eq send_error_def socket_send_def)

lemma close_code_append_sent: "close_code (ws @ [Sent v]) = close_code ws"
  by (induction ws rule: close_code.induct) simp_all

lemma minute_count_count_message:
  "minute_count (count_message srv sid now) sid now = minute_count srv sid now + 1"
  by (simp add: minute_count_def count_message_def)

lemma on_message_authenticated:
  assumes "is_authenticated s"
  shows "is_authenticated (snd (on_message srv s now (Json_text m)))
       \<and> s_socket_id (snd (on_message srv s now (Json_text m))) = s_socket_id s
       \<and> socket_state (snd (on_message srv s now (Json_text m))) = socket_state s
       \<and> close_code (outbox (snd (on_message srv s now (Json_text m)))) = close_code (outbox s)
       \<and> fst (on_message srv s now (Json_text m)) = count_message srv (s_socket_id s) now"
  using assms
  by (simp add: on_message_def handle_message_eq send_error_def socket_send_def
      close_code_append_sent split: option.splits)

text \<open>However many JSON messages an authenticated session sends within a minute, it
  stays authenticated, its socket stays in the state it was in, no close frame is sent,
  and each message is counted.\<close>

lemma feed_json_messages:
  assumes "is_authenticated (snd st)"
  shows "is_authenticated (snd (feed st now (replicate n (Json_text m))))
       \<and> s_socket_id (snd (feed st now (replicate n (Json_text m)))) = s_socket_id (snd st)
       \<and> socket_state (snd (feed st now (replicate n (Json_text m)))) = socket_state (snd st)
       \<and> close_code (outbox (snd (feed st now (replicate n (Json_text m)))))
           = close_code (outbox (snd st))
       \<and> minute_count (fst (feed st now (replicate n (Json_text m)))) (s_socket_id (snd st)) now
           = minute_count (fst st) (s_socket_id (snd st)) now + int n"
  using assms
proof (induction n arbitrary: st)
  case 0
  then show ?case by simp
next
  case (Suc n)
  let ?st' = "on_message (fst st) (snd st) now (Json_text m)"
  note step = on_message_authenticated [OF Suc.prems, of "fst st" now m]
  from step have auth': "is_authenticated (snd ?st')" by simp
  from Suc.IH [OF auth'] step show ?case
    by (simp add: minute_count_count_message)
qed

lemma feed_append: "feed st now (xs @ ys) = feed (feed st now xs) now ys"
  by (induction xs arbitrary: st) simp_all

text \<open>
  Claim C7. The authenticated visitor sends 61 pings within one minute. The 61st
  exceeds the limit of 60 and is answered with the error message of code 4006, and that
  is all: no close frame is sent, the socket is still open and the session still
  authenticated.
\<close>

theorem message_over_limit_keeps_session_open:
  "socket_state (snd sixty_one_pings) = OPEN
   \<and> is_authenticated (snd sixty_one_pings)
   \<and> close_code (outbox (snd sixty_one_pings)) = None
   \<and> last (outbox (snd sixty_one_pings)) =
       Sent (error_message ''message rate limit exceeded'' 4006)"
proof -
  let ?st = "feed after_auth 6 (replicate 60 ping_frame)"
  have a: "is_authenticated (snd after_auth)" by (simp add: after_auth_eq)
  have inv: "is_authenticated (snd ?st) \<and> s_socket_id (snd ?st) = ''ws_1''
      \<and> socket_state (snd ?st) = OPEN \<and> close_code (outbox (snd ?st)) = None
      \<and> minute_count (fst ?st) ''ws_1'' 6 = 60"
    using feed_json_messages [OF a, of 6 60 "JObj [(''type'', JStr ''ping'')]"]
    by (simp add: ping_frame_def after_auth_eq minute_count_def)
  have split: "sixty_one_pings = on_message (fst ?st) (snd ?st) 6 ping_frame"
    unfolding sixty_one_pings_def
    by (simp only: feed_append feed.simps)
  have lim: "minute_count (fst ?st) (s_socket_id (snd ?st)) 6 \<ge> DEFAULT_messages_per_minute"
    using inv by (simp add: DEFAULT_messages_per_minute_def)
  have json: "on_message srv s 6 ping_frame =
      on_message srv s 6 (Json_text (JObj [(''type'', JStr ''ping'')]))" for srv s
    by (simp add: ping_frame_def)
  have "sixty_one_pings =
      (count_message (fst ?st) (s_socket_id (snd ?st)) 6,
       (snd ?st)\<lparr>outbox := outbox (snd ?st) @
                    [Sent (error_message ''message rate limit exceeded'' 4006)]\<rparr>)"
    unfolding split json
    by (rule handle_message_over_limit) (use inv lim in simp_all)
  then have s: "snd sixty_one_pings =
      (snd ?st)\<lparr>outbox := outbox (snd ?st) @
                    [Sent (error_message ''message rate limit exceeded'' 4006)]\<rparr>"
    by (metis snd_conv)
  show ?thesis
    unfolding s using inv by (simp add: close_code_append_sent)
qed

section \<open>The gateway: the bare keepalive frame\<close>

text \<open>
  Claim C9. The authenticated visitor sends the text frame \<open>ping\<close>, as the widget's
  client does every few seconds. \<open>JSON.parse\<close> throws on it, and the answer is the
  error message \<open>invalid message format\<close> of code 4007; no pong is sent. The JSON
  message \<open>{"type": "ping"}\<close> is the one answered with a pong.
\<close>

theorem bare_ping_answered_with_error:
  "text_of (Non_json ''ping'') = ''ping''
   \<and> on_message (fst after_auth) (snd after_auth) 6 (Other_text (Non_json ''ping'')) =
     (fst after_auth,
      (snd after_auth)\<lparr>outbox := outbox (snd after_auth) @
                           [Sent (error_message ''invalid message format'' 4007)]\<rparr>)
   \<and> outbox (snd (on_message (fst after_auth) (snd after_auth) 6 ping_frame)) =
       outbox (snd after_auth) @ [Sent (JObj [(''type'', JStr ''pong'')])]"
  by (simp add: after_auth_eq on_message_def send_error_def socket_send_def handle_message_eq
      minute_count_def DEFAULT_messages_per_minute_def ping_frame_def Non_json_inverse)

section \<open>The gateway: the first message of a session\<close>

text \<open>
  Claim C6, as the code has it. A session that is not authenticated, its socket open,
  receives a JSON message other than null (so that its \<open>type\<close> can be read) whose
  \<open>type\<close> is not the string \<open>auth\<close>.
  \<open>handle_auth\<close> answers with the error message \<open>invalid auth message\<close> of code 4002
  and closes the socket with close code 4002, the code of a failed authentication; the
  shared state is untouched and the session is not authenticated.
\<close>

theorem first_message_not_auth:
  assumes "\<not> is_authenticated s" and "socket_state s = OPEN"
    and "get_prop message ''type'' = Some ty" and "ty \<noteq> JStr ''auth''"
  shows "on_message srv s now (Json_text message) =
           (srv, s\<lparr>socket_state := CLOSING,
                   outbox := outbox s @ [Sent (error_message ''invalid auth message'' 4002),
                                          Close_frame 4002 ''Invalid auth'']\<rparr>)"
proof -
  obtain key where "get_prop message ''api_key'' = Some key"
    using assms(3) by (cases message) auto
  then show ?thesis
    using assms
    by (simp add: on_message_def handle_auth_def reject_def send_error_def socket_send_def
        socket_close_def)
qed

theorem first_message_not_auth_witness:
  "\<not> is_authenticated visitor \<and> socket_state visitor = OPEN
   \<and> get_prop (JObj [(''type'', JStr ''ping'')]) ''type'' = Some (JStr ''ping'')
   \<and> JStr ''ping'' \<noteq> JStr ''auth''
   \<and> on_message (server_of [acme]) visitor 5 ping_frame =
       (server_of [acme],
        visitor\<lparr>socket_state := CLOSING,
                outbox := [Sent (error_message ''invalid auth message'' 4002),
                           Close_frame 4002 ''Invalid auth'']\<rparr>)"
proof -
  have h1: "\<not> is_authenticated visitor" and h2: "socket_state visitor = OPEN"
    by (simp_all add: visitor_def on_connection_def)
  have h3: "get_prop (JObj [(''type'', JStr ''ping'')]) ''type'' = Some (JStr ''ping'')"
    by simp
  have h4: "JStr ''ping'' \<noteq> JStr ''auth''"
    by simp
  have o: "outbox visitor = []"
    by (simp add: visitor_def on_connection_def)
  from first_message_not_auth [OF h1 h2 h3 h4, of "server_of [acme]" 5] h1 h2 h3 h4
  show ?thesis by (simp add: ping_frame_def o)
qed

text \<open>Against the claim as the specification states it: the visitor's first message is
  \<open>{"type": "ping"}\<close>; the close code is 4002, not 4007.\<close>

theorem first_message_ping_closes_4002:
  "\<not> is_authenticated visitor
   \<and> close_code (outbox (snd (on_message (server_of [acme]) visitor 5 ping_frame))) = Some 4002
   \<and> close_code (outbox (snd (on_message (server_of [acme]) visitor 5 ping_frame))) \<noteq> Some 4007"
  by (simp add: on_message_def handle_auth_def reject_def send_error_def socket_send_def
      socket_close_def visitor_def on_connection_def ping_frame_def)

text \<open>Two first frames that throw, a text that is not JSON and the JSON value null,
  are answered with the error message of code 4007.\<close>

lemma first_frame_not_json:
  assumes "socket_state s = OPEN"
  shows "on_message srv s now (Other_text t) =
           (srv, s\<lparr>outbox := outbox s @ [Sent (error_message ''invalid message format'' 4007)]\<rparr>)"
  using assms by (simp add: on_message_def send_error_def socket_send_def)

lemma first_message_null:
  assumes "\<not> is_authenticated s" and "socket_state s = OPEN"
  shows "on_message srv s now (Json_text JNull) =
           (srv, s\<lparr>outbox := outbox s @ [Sent (error_message ''invalid message format'' 4007)]\<rparr>)"
  using assms by (simp add: on_message_def handle_auth_def send_error_def socket_send_def)

section \<open>The gateway: unknown keys and inactive tenants\<close>




section \<open>The gateway: connection accounting at teardown\<close>

text \<open>A session that never authenticated leaves the shared state alone when it closes;
  removing a connection a second time changes nothing; and a connection added and then
  removed leaves every count of an exchange and of an address as it was.\<close>

lemma close_without_authentication: "\<not> is_authenticated s \<Longrightarrow> fst (on_close srv s) = srv"
  by (simp add: on_close_def cleanup_def)

text \<open>A session that sends nothing is closed by the authentication timer with close
  code 4001, and its \<open>close\<close> event leaves the shared state as it was.\<close>

lemma auth_timeout_closes:
  assumes "\<not> is_authenticated s" and "auth_timeout s" and "socket_state s = OPEN"
  shows "on_auth_timeout s =
           s\<lparr>auth_timeout := False, socket_state := CLOSING,
             outbox := outbox s @ [Sent (error_message ''authentication timeout'' 4001),
                                   Close_frame 4001 ''Auth timeout'']\<rparr>"
    and "fst (on_close srv (on_auth_timeout s)) = srv"
  using assms
  by (simp_all add: on_auth_timeout_def send_error_def socket_send_def socket_close_def
      on_close_def cleanup_def Let_def)

text \<open>The heartbeat pings an open socket only, and only once the session is
  authenticated, which is when the interval is started.\<close>

lemma heartbeat_before_authentication:
  "on_heartbeat (on_connection sid ip origin) = on_connection sid ip origin"
  by (simp add: on_heartbeat_def on_connection_def)

lemma remove_connection_twice:
  "remove_connection (remove_connection srv sid) sid = remove_connection srv sid"
  by (simp add: remove_connection_def delete_conv' Let_def split: option.splits)

lemma connect_then_disconnect_counts:
  "get_exchange_connection_count (remove_connection (add_connection srv sid eid ip now) sid) e
     = get_exchange_connection_count srv e"
  "get_ip_connection_count (remove_connection (add_connection srv sid eid ip now) sid) a
     = get_ip_connection_count srv a"
  by (simp_all add: remove_connection_def add_connection_def update_conv' Let_def
      get_exchange_connection_count_def get_ip_connection_count_def redis_get_def
      redis_sadd_def redis_srem_def redis_incr_def redis_decr_def redis_expire_def
      split: option.splits)

text \<open>
  Claim C2. The visitor authenticates with acme's key: the count of acme goes from 0 to
  1. Closed by the client, the session brings it back to 0. After
  \<open>graceful_shutdown\<close>, which sends the close frame 4009 and clears the Map of
  connections, the \<open>close\<close> event of the same session finds no entry to remove:
  \<open>remove_connection\<close> returns at once, and the counts of the exchange and of the
  address stay at 1, the socket id stays in the exchange's set, with no session left.
\<close>

theorem shutdown_leaves_counters_incremented:
  "get_exchange_connection_count (server_of [acme]) ''acme'' = 0
   \<and> get_exchange_connection_count (fst after_auth) ''acme'' = 1
   \<and> get_exchange_connection_count (fst (on_close (fst after_auth) (snd after_auth))) ''acme'' = 0
   \<and> (case shutdown_then_close of
        None \<Rightarrow> False
      | Some (srv, s) \<Rightarrow>
          socket_state s = CLOSED \<and> close_code (outbox s) = Some 4009
          \<and> connections srv = []
          \<and> get_exchange_connection_count srv ''acme'' = 1
          \<and> get_ip_connection_count srv ''10.0.0.1'' = 1
          \<and> r_sets (redis srv) (Connections ''acme'') = {''ws_1''})"
  by (simp add: shutdown_then_close_def after_auth_eq graceful_shutdown_def on_close_def cleanup_def
      remove_connection_def get_exchange_connection_count_def get_ip_connection_count_def
      redis_get_def socket_send_def socket_close_def shutdown_message_def
      server_of_def redis_empty_def redis_srem_def redis_decr_def Let_def)

end
